theory Spec2Isabelle
  imports Main "HOL-Library.AList"
begin

section \<open>Values, requests and responses\<close>

text \<open>
  The handlers of \<^verbatim>\<open>crud.routes.ts\<close> move JavaScript values between the request and the
  database client without looking inside them. A value is what \<^verbatim>\<open>express.json()\<close> can put
  into \<^verbatim>\<open>req.body\<close>, or \<^verbatim>\<open>undefined\<close> when nothing was parsed or a property is absent.
  An object is the list of its own properties; a property is read at its first entry.
  Numbers are never computed with, so an integer payload stands for them.
\<close>

datatype jsval =
    JUndefined
  | JNull
  | JBool bool
  | JNum int
  | JStr string
  | JArr "jsval list"
  | JObj "(string \<times> jsval) list"

text \<open>
  What a \<^verbatim>\<open>try\<close> block of a handler can catch: the \<^verbatim>\<open>TypeError\<close> of destructuring
  \<^verbatim>\<open>undefined\<close> or \<^verbatim>\<open>null\<close>, or whatever the database client threw.
\<close>

datatype 'e exn = TypeError | DbError 'e

text \<open>
  \<^verbatim>\<open>const { k } = v\<close>: reading property \<^verbatim>\<open>k\<close> of \<^verbatim>\<open>v\<close>. It throws on \<^verbatim>\<open>undefined\<close> and
  \<^verbatim>\<open>null\<close> (the result \<open>None\<close>); an object gives the property or \<^verbatim>\<open>undefined\<close>; the keys the handlers read
  (\<^verbatim>\<open>collection\<close>, \<^verbatim>\<open>data\<close>) are no property of a boolean, number, string or array.
\<close>

fun get_prop :: "jsval \<Rightarrow> string \<Rightarrow> jsval option" where
  "get_prop JUndefined k = None"
| "get_prop JNull k = None"
| "get_prop (JObj kvs) k = Some (case map_of kvs k of None \<Rightarrow> JUndefined | Some v \<Rightarrow> v)"
| "get_prop (JBool b) k = Some JUndefined"
| "get_prop (JNum n) k = Some JUndefined"
| "get_prop (JStr s) k = Some JUndefined"
| "get_prop (JArr vs) k = Some JUndefined"

text \<open>
  The part of an Express request the handlers read: \<^verbatim>\<open>req.body\<close> and the two route
  parameters \<^verbatim>\<open>req.params.collection\<close> and \<^verbatim>\<open>req.params.id\<close>, which are strings.
\<close>

record request =
  body :: jsval
  param_collection :: string
  param_id :: string

text \<open>\<^verbatim>\<open>res.status(n).send(text)\<close> and \<^verbatim>\<open>res.status(n).json(value)\<close>.\<close>

datatype payload = Text string | Json jsval

record response =
  status :: nat
  content :: payload

section \<open>The database client\<close>

text \<open>
  \<^verbatim>\<open>crudRoutes\<close> takes the database handle \<^verbatim>\<open>db\<close> as its argument. The handlers use four
  call chains of it, each of which returns or throws:
  \<^item> \<^verbatim>\<open>db.collection(c).add(data)\<close>, which returns a document reference with an \<^verbatim>\<open>id\<close>;
  \<^item> \<^verbatim>\<open>db.collection(c).doc(i).get()\<close>, which returns a snapshot with \<^verbatim>\<open>exists\<close> and
    \<^verbatim>\<open>data()\<close>;
  \<^item> \<^verbatim>\<open>db.collection(c).doc(i).update(data)\<close>;
  \<^item> \<^verbatim>\<open>db.collection(c).doc(i).delete()\<close>.
  The client is a parameter of the model too: a record of these four operations over a
  database state \<open>'s\<close> with errors \<open>'e\<close>. A writing call returns the state it leaves behind
  also when it throws; \<^verbatim>\<open>get\<close> is a query and has no state to return.
\<close>

record doc_ref =
  ref_id :: string

record snapshot =
  exists :: bool
  data :: jsval

record ('s, 'e) firestore =
  col_add :: "jsval \<Rightarrow> jsval \<Rightarrow> 's \<Rightarrow> ('e + doc_ref) \<times> 's"
  doc_get :: "string \<Rightarrow> string \<Rightarrow> 's \<Rightarrow> 'e + snapshot"
  doc_update :: "string \<Rightarrow> string \<Rightarrow> jsval \<Rightarrow> 's \<Rightarrow> ('e + unit) \<times> 's"
  doc_delete :: "string \<Rightarrow> string \<Rightarrow> 's \<Rightarrow> ('e + unit) \<times> 's"

section \<open>Handlers\<close>

text \<open>
  What a handler can touch while it runs: the database behind the client, the console
  it logs to, and the responses it has sent.
\<close>

record ('s, 'e) world =
  db :: 's
  console :: "'e exn list"
  sent :: "response list"

type_synonym ('s, 'e, 'a) action = "('s, 'e) world \<Rightarrow> ('e exn + 'a) \<times> ('s, 'e) world"

definition bind_action :: "('s, 'e, 'a) action \<Rightarrow> ('a \<Rightarrow> ('s, 'e, 'b) action) \<Rightarrow> ('s, 'e, 'b) action" where
  "bind_action m f = (\<lambda>w. case m w of (Inl e, w') \<Rightarrow> (Inl e, w') | (Inr a, w') \<Rightarrow> f a w')"

text \<open>\<^verbatim>\<open>try { m } catch (error) { h error }\<close>\<close>

definition try_catch :: "('s, 'e, 'a) action \<Rightarrow> ('e exn \<Rightarrow> ('s, 'e, 'a) action) \<Rightarrow> ('s, 'e, 'a) action" where
  "try_catch m h = (\<lambda>w. case m w of (Inl e, w') \<Rightarrow> h e w' | (Inr a, w') \<Rightarrow> (Inr a, w'))"

definition destructure :: "jsval \<Rightarrow> string \<Rightarrow> ('s, 'e, jsval) action" where
  "destructure v k = (\<lambda>w. (case get_prop v k of None \<Rightarrow> Inl TypeError | Some x \<Rightarrow> Inr x, w))"

text \<open>An awaited call of a writing operation of the client; what it throws is caught as thrown.\<close>

definition await_write :: "('s \<Rightarrow> ('e + 'a) \<times> 's) \<Rightarrow> ('s, 'e, 'a) action" where
  "await_write call = (\<lambda>w. case call (db w) of
       (Inl e, s') \<Rightarrow> (Inl (DbError e), w\<lparr>db := s'\<rparr>)
     | (Inr a, s') \<Rightarrow> (Inr a, w\<lparr>db := s'\<rparr>))"

definition await_query :: "('s \<Rightarrow> 'e + 'a) \<Rightarrow> ('s, 'e, 'a) action" where
  "await_query call = (\<lambda>w. case call (db w) of
       Inl e \<Rightarrow> (Inl (DbError e), w)
     | Inr a \<Rightarrow> (Inr a, w))"

definition console_log :: "'e exn \<Rightarrow> ('s, 'e, unit) action" where
  "console_log error = (\<lambda>w. (Inr (), w\<lparr>console := console w @ [error]\<rparr>))"

definition respond :: "nat \<Rightarrow> payload \<Rightarrow> ('s, 'e, unit) action" where
  "respond code p = (\<lambda>w. (Inr (), w\<lparr>sent := sent w @ [\<lparr>status = code, content = p\<rparr>]\<rparr>))"

text \<open>\<^verbatim>\<open>router.post('/create', ...)\<close>\<close>

definition create_handler :: "('s, 'e) firestore \<Rightarrow> request \<Rightarrow> ('s, 'e, unit) action" where
  "create_handler client req =
     try_catch
       (bind_action (destructure (body req) ''collection'') (\<lambda>collection.
        bind_action (destructure (body req) ''data'') (\<lambda>data.
        bind_action (await_write (col_add client collection data)) (\<lambda>docRef.
        respond 201 (Json (JObj [(''id'', JStr (ref_id docRef))]))))))
       (\<lambda>error.
        bind_action (console_log error) (\<lambda>_.
        respond 500 (Text ''Error creating document'')))"

text \<open>\<^verbatim>\<open>router.get('/read/:collection/:id', ...)\<close>\<close>

definition read_handler :: "('s, 'e) firestore \<Rightarrow> request \<Rightarrow> ('s, 'e, unit) action" where
  "read_handler client req =
     try_catch
       (bind_action (await_query (doc_get client (param_collection req) (param_id req))) (\<lambda>doc.
        if \<not> exists doc then respond 404 (Text ''Document not found'')
        else respond 200 (Json (data doc))))
       (\<lambda>error.
        bind_action (console_log error) (\<lambda>_.
        respond 500 (Text ''Error reading document'')))"

text \<open>\<^verbatim>\<open>router.put('/update/:collection/:id', ...)\<close>\<close>

definition update_handler :: "('s, 'e) firestore \<Rightarrow> request \<Rightarrow> ('s, 'e, unit) action" where
  "update_handler client req =
     try_catch
       (bind_action (destructure (body req) ''data'') (\<lambda>data.
        bind_action (await_write (doc_update client (param_collection req) (param_id req) data)) (\<lambda>_.
        respond 200 (Text ''Document updated''))))
       (\<lambda>error.
        bind_action (console_log error) (\<lambda>_.
        respond 500 (Text ''Error updating document'')))"

text \<open>\<^verbatim>\<open>router.delete('/delete/:collection/:id', ...)\<close>\<close>

definition delete_handler :: "('s, 'e) firestore \<Rightarrow> request \<Rightarrow> ('s, 'e, unit) action" where
  "delete_handler client req =
     try_catch
       (bind_action (await_write (doc_delete client (param_collection req) (param_id req))) (\<lambda>_.
        respond 200 (Text ''Document deleted'')))
       (\<lambda>error.
        bind_action (console_log error) (\<lambda>_.
        respond 500 (Text ''Error deleting document'')))"

text \<open>The router that \<^verbatim>\<open>crudRoutes(db)\<close> returns: one handler for each of its four routes.\<close>

datatype route = PostCreate | GetRead | PutUpdate | DeleteDelete

fun crudRoutes :: "('s, 'e) firestore \<Rightarrow> route \<Rightarrow> request \<Rightarrow> ('s, 'e, unit) action" where
  "crudRoutes client PostCreate = create_handler client"
| "crudRoutes client GetRead = read_handler client"
| "crudRoutes client PutUpdate = update_handler client"
| "crudRoutes client DeleteDelete = delete_handler client"

text \<open>A request arrives with a database state, an empty console and nothing sent.\<close>

definition arrive :: "'s \<Rightarrow> ('s, 'e) world" where
  "arrive s = \<lparr>db = s, console = [], sent = []\<rparr>"

definition serve :: "('s, 'e) firestore \<Rightarrow> route \<Rightarrow> request \<Rightarrow> 's \<Rightarrow> ('e exn + unit) \<times> ('s, 'e) world" where
  "serve client r req s = crudRoutes client r req (arrive s)"

section \<open>A document store behind the client\<close>

text \<open>
  Modelled from the spec: the database client is the external SDK
  (\<^verbatim>\<open>@google-cloud/firestore\<close>), none of whose code is in the repository. The spec names
  its primitives, \<^verbatim>\<open>collection(name).add(data) -> id\<close>,
  \<^verbatim>\<open>collection(name).doc(id).get() -> {exists, data()}\<close>,
  \<^verbatim>\<open>collection(name).doc(id).update(data)\<close> and \<^verbatim>\<open>collection(name).doc(id).delete()\<close>,
  a document as "a JSON-like record identified by an id within a collection", and the
  causes of a thrown error as "network failure, permission denial, malformed input".
  The store below holds the fields of each document under its collection and id, and a
  flag that says whether the database can be reached.
\<close>

datatype fs_error = Unavailable | InvalidArgument | NotFound

record store =
  online :: bool
  docs :: "((string \<times> string) \<times> (string \<times> jsval) list) list"

text \<open>
  Modelled from the spec: the "newly-assigned identifier" of \<^verbatim>\<open>add\<close>. It is not empty and
  longer than every identifier in use, so it names no document of the collection.
\<close>

definition ids_in :: "string \<Rightarrow> store \<Rightarrow> string list" where
  "ids_in c s = map (snd \<circ> fst) (filter (\<lambda>kv. fst (fst kv) = c) (docs s))"

definition fresh_id :: "string list \<Rightarrow> string" where
  "fresh_id used = replicate (Suc (foldr max (map length used) 0)) CHR ''a''"

text \<open>
  Modelled from the spec: \<^verbatim>\<open>collection(name).add(data) -> id\<close>. A collection name that is
  not a non-empty string, or data that is not an object, is malformed input.
\<close>

fun mem_add :: "jsval \<Rightarrow> jsval \<Rightarrow> store \<Rightarrow> (fs_error + doc_ref) \<times> store" where
  "mem_add (JStr c) (JObj flds) s =
     (if c = [] then (Inl InvalidArgument, s)
      else if \<not> online s then (Inl Unavailable, s)
      else let i = fresh_id (ids_in c s)
           in (Inr \<lparr>ref_id = i\<rparr>, s\<lparr>docs := AList.update (c, i) flds (docs s)\<rparr>))"
| "mem_add _ _ s = (Inl InvalidArgument, s)"

text \<open>
  Modelled from the spec: \<^verbatim>\<open>collection(name).doc(id).get() -> {exists, data()}\<close>; the data
  of a document that does not exist is \<^verbatim>\<open>undefined\<close>.
\<close>

definition mem_get :: "string \<Rightarrow> string \<Rightarrow> store \<Rightarrow> fs_error + snapshot" where
  "mem_get c i s =
     (if \<not> online s then Inl Unavailable
      else case map_of (docs s) (c, i) of
             None \<Rightarrow> Inr \<lparr>exists = False, data = JUndefined\<rparr>
           | Some flds \<Rightarrow> Inr \<lparr>exists = True, data = JObj flds\<rparr>)"

text \<open>
  Modelled from the spec: \<^verbatim>\<open>collection(name).doc(id).update(data)\<close>, after which a read
  reflects "the merged/overwritten fields": a field of the payload replaces the field of
  that name or is added, every other field stays. On a document that does not exist the
  spec leaves the choice to the client ("either creates-or-errors"); this store throws.
\<close>

fun mem_update :: "string \<Rightarrow> string \<Rightarrow> jsval \<Rightarrow> store \<Rightarrow> (fs_error + unit) \<times> store" where
  "mem_update c i (JObj flds) s =
     (if \<not> online s then (Inl Unavailable, s)
      else case map_of (docs s) (c, i) of
             None \<Rightarrow> (Inl NotFound, s)
           | Some old \<Rightarrow> (Inr (), s\<lparr>docs := AList.update (c, i) (AList.merge old flds) (docs s)\<rparr>))"
| "mem_update c i _ s = (Inl InvalidArgument, s)"

text \<open>
  Modelled from the spec: \<^verbatim>\<open>collection(name).doc(id).delete()\<close>. Deleting a document that
  does not exist is no error.
\<close>

definition mem_delete :: "string \<Rightarrow> string \<Rightarrow> store \<Rightarrow> (fs_error + unit) \<times> store" where
  "mem_delete c i s =
     (if \<not> online s then (Inl Unavailable, s)
      else (Inr (), s\<lparr>docs := AList.delete (c, i) (docs s)\<rparr>))"

definition memory_firestore :: "(store, fs_error) firestore" where
  "memory_firestore =
     \<lparr>col_add = mem_add, doc_get = mem_get, doc_update = mem_update, doc_delete = mem_delete\<rparr>"

text \<open>
  A client of the same store whose connection drops after an update has been applied and
  before it is acknowledged: the call throws \<open>Unavailable\<close> and the write stands.
\<close>

definition unacked_firestore :: "(store, fs_error) firestore" where
  "unacked_firestore =
     memory_firestore\<lparr>doc_update := \<lambda>c i d s. (Inl Unavailable, snd (mem_update c i d s))\<rparr>"

text \<open>
  A client that only records the arguments of the writing calls it receives, in order.
\<close>

datatype call = Add jsval jsval | Update string string jsval | Delete string string

definition recording_firestore :: "(call list, unit) firestore" where
  "recording_firestore =
     \<lparr>col_add = (\<lambda>c d calls. (Inr \<lparr>ref_id = ''r''\<rparr>, calls @ [Add c d])),
      doc_get = (\<lambda>c i calls. Inr \<lparr>exists = False, data = JUndefined\<rparr>),
      doc_update = (\<lambda>c i d calls. (Inr (), calls @ [Update c i d])),
      doc_delete = (\<lambda>c i calls. (Inr (), calls @ [Delete c i]))\<rparr>"

text \<open>A client whose writing calls change nothing when they throw.\<close>

definition failed_writes_change_nothing :: "('s, 'e) firestore \<Rightarrow> bool" where
  "failed_writes_change_nothing client \<longleftrightarrow>
     (\<forall>c d s e s'. col_add client c d s = (Inl e, s') \<longrightarrow> s' = s) \<and>
     (\<forall>c i d s e s'. doc_update client c i d s = (Inl e, s') \<longrightarrow> s' = s) \<and>
     (\<forall>c i s e s'. doc_delete client c i s = (Inl e, s') \<longrightarrow> s' = s)"

text \<open>The requests of the scenario of the spec.\<close>

definition john :: "(string \<times> jsval) list" where
  "john = [(''name'', JStr ''John''), (''age'', JNum 30)]"

definition create_john :: request where
  "create_john = \<lparr>body = JObj [(''collection'', JStr ''users''), (''data'', JObj john)],
                   param_collection = [], param_id = []\<rparr>"

definition at_doc :: "string \<Rightarrow> string \<Rightarrow> jsval \<Rightarrow> request" where
  "at_doc c i b = \<lparr>body = b, param_collection = c, param_id = i\<rparr>"

definition empty_store :: store where
  "empty_store = \<lparr>online = True, docs = []\<rparr>"

definition john_store :: store where
  "john_store = \<lparr>online = True, docs = [((''users'', ''abc123''), john)]\<rparr>"

definition offline_store :: store where
  "offline_store = \<lparr>online = False, docs = [((''users'', ''abc123''), john)]\<rparr>"

definition set_age :: jsval where
  "set_age = JObj [(''data'', JObj [(''age'', JNum 31)])]"

section \<open>Running the handlers\<close>

lemmas action_defs =
  bind_action_def try_catch_def destructure_def await_write_def await_query_def
  console_log_def respond_def arrive_def serve_def

lemmas handler_defs =
  create_handler_def read_handler_def update_handler_def delete_handler_def

lemmas scenario_defs =
  memory_firestore_def mem_get_def mem_delete_def offline_store_def john_store_def
  empty_store_def create_john_def at_doc_def set_age_def john_def fresh_id_def ids_in_def
  AList.merge_def Let_def

lemma memory_firestore_sel:
  "col_add memory_firestore = mem_add" "doc_get memory_firestore = mem_get"
  "doc_update memory_firestore = mem_update" "doc_delete memory_firestore = mem_delete"
  by (simp_all add: memory_firestore_def)

lemma memory_failed_writes: "failed_writes_change_nothing memory_firestore"
proof -
  have a: "mem_add c d s = (Inl e, s') \<Longrightarrow> s' = s" for c d s e s'
    by (cases "(c, d, s)" rule: mem_add.cases) (auto simp: Let_def split: if_splits)
  have u: "mem_update c i d s = (Inl e, s') \<Longrightarrow> s' = s" for c i d s e s'
    by (cases "(c, i, d, s)" rule: mem_update.cases) (auto split: if_splits option.splits)
  have dl: "mem_delete c i s = (Inl e, s') \<Longrightarrow> s' = s" for c i s e s'
    by (auto simp: mem_delete_def split: if_splits)
  show ?thesis
    unfolding failed_writes_change_nothing_def memory_firestore_sel
    using a u dl by blast
qed

section \<open>What every handler does with the outcome of its database call\<close>

text \<open>
  Every handler, on every request and with every client, returns normally and sends
  exactly one response: no exception leaves a handler.
\<close>

lemma handler_returns_one_response:
  "fst (serve client r req s) = Inr () \<and> length (sent (snd (serve client r req s))) = 1"
proof (cases r)
  case PostCreate
  show ?thesis
  proof (cases "get_prop (body req) ''collection''")
    case None
    with PostCreate show ?thesis by (simp add: action_defs handler_defs)
  next
    case c: (Some c)
    show ?thesis
    proof (cases "get_prop (body req) ''data''")
      case None
      with PostCreate c show ?thesis by (simp add: action_defs handler_defs)
    next
      case (Some d)
      with PostCreate c show ?thesis
        by (cases "col_add client c d s"; cases "fst (col_add client c d s)")
          (simp_all add: action_defs handler_defs)
    qed
  qed
next
  case GetRead
  then show ?thesis
    by (cases "doc_get client (param_collection req) (param_id req) s")
      (simp_all add: action_defs handler_defs)
next
  case PutUpdate
  show ?thesis
  proof (cases "get_prop (body req) ''data''")
    case None
    with PutUpdate show ?thesis by (simp add: action_defs handler_defs)
  next
    case (Some d)
    with PutUpdate show ?thesis
      by (cases "doc_update client (param_collection req) (param_id req) d s";
          cases "fst (doc_update client (param_collection req) (param_id req) d s)")
        (simp_all add: action_defs handler_defs)
  qed
next
  case DeleteDelete
  then show ?thesis
    by (cases "doc_delete client (param_collection req) (param_id req) s";
        cases "fst (doc_delete client (param_collection req) (param_id req) s)")
      (simp_all add: action_defs handler_defs)
qed

text \<open>
  Claim C1. Whatever the operation and the request, when the database call of the handler
  throws an error \<open>e\<close>, the handler logs \<open>e\<close>, sends the one response 500 with the fixed
  message of the operation, and returns normally (\<open>Inr ()\<close>): the exception goes no
  further. The response does not depend on \<open>e\<close>.
\<close>

theorem database_exception_gives_500:
  "(get_prop (body req) ''collection'' = Some c \<and> get_prop (body req) ''data'' = Some d \<and>
      col_add client c d s = (Inl e, s') \<longrightarrow>
    serve client PostCreate req s =
      (Inr (), \<lparr>db = s', console = [DbError e],
                sent = [\<lparr>status = 500, content = Text ''Error creating document''\<rparr>]\<rparr>)) \<and>
   (doc_get client (param_collection req) (param_id req) s = Inl e \<longrightarrow>
    serve client GetRead req s =
      (Inr (), \<lparr>db = s, console = [DbError e],
                sent = [\<lparr>status = 500, content = Text ''Error reading document''\<rparr>]\<rparr>)) \<and>
   (get_prop (body req) ''data'' = Some d \<and>
      doc_update client (param_collection req) (param_id req) d s = (Inl e, s') \<longrightarrow>
    serve client PutUpdate req s =
      (Inr (), \<lparr>db = s', console = [DbError e],
                sent = [\<lparr>status = 500, content = Text ''Error updating document''\<rparr>]\<rparr>)) \<and>
   (doc_delete client (param_collection req) (param_id req) s = (Inl e, s') \<longrightarrow>
    serve client DeleteDelete req s =
      (Inr (), \<lparr>db = s', console = [DbError e],
                sent = [\<lparr>status = 500, content = Text ''Error deleting document''\<rparr>]\<rparr>))"
  by (simp add: action_defs handler_defs)

theorem database_exception_gives_500_witness:
  "col_add memory_firestore (JStr ''users'') (JObj john) offline_store =
     (Inl Unavailable, offline_store) \<and>
   serve memory_firestore PostCreate create_john offline_store =
     (Inr (), \<lparr>db = offline_store, console = [DbError Unavailable],
               sent = [\<lparr>status = 500, content = Text ''Error creating document''\<rparr>]\<rparr>) \<and>
   doc_get memory_firestore ''users'' ''abc123'' offline_store = Inl Unavailable \<and>
   serve memory_firestore GetRead (at_doc ''users'' ''abc123'' set_age) offline_store =
     (Inr (), \<lparr>db = offline_store, console = [DbError Unavailable],
               sent = [\<lparr>status = 500, content = Text ''Error reading document''\<rparr>]\<rparr>) \<and>
   doc_update memory_firestore ''users'' ''abc123'' (JObj [(''age'', JNum 31)]) offline_store =
     (Inl Unavailable, offline_store) \<and>
   serve memory_firestore PutUpdate (at_doc ''users'' ''abc123'' set_age) offline_store =
     (Inr (), \<lparr>db = offline_store, console = [DbError Unavailable],
               sent = [\<lparr>status = 500, content = Text ''Error updating document''\<rparr>]\<rparr>) \<and>
   doc_delete memory_firestore ''users'' ''abc123'' offline_store =
     (Inl Unavailable, offline_store) \<and>
   serve memory_firestore DeleteDelete (at_doc ''users'' ''abc123'' set_age) offline_store =
     (Inr (), \<lparr>db = offline_store, console = [DbError Unavailable],
               sent = [\<lparr>status = 500, content = Text ''Error deleting document''\<rparr>]\<rparr>)"
  using
    database_exception_gives_500 [of create_john "JStr ''users''" "JObj john"
      memory_firestore offline_store Unavailable offline_store]
    database_exception_gives_500 [of "at_doc ''users'' ''abc123'' set_age" JUndefined
      "JObj [(''age'', JNum 31)]" memory_firestore offline_store Unavailable offline_store]
  by (simp add: scenario_defs)

text \<open>
  Claim C2. When \<^verbatim>\<open>get\<close> returns a snapshot, Read answers 404 "Document not found" exactly
  when the snapshot says the document does not exist, and otherwise 200 with the data of
  the snapshot as the body.
\<close>

theorem read_found_or_not:
  "doc_get client (param_collection req) (param_id req) s = Inr doc \<Longrightarrow>
   (sent (snd (serve client GetRead req s)) =
      [\<lparr>status = 404, content = Text ''Document not found''\<rparr>] \<longleftrightarrow> \<not> exists doc) \<and>
   (exists doc \<longrightarrow>
    sent (snd (serve client GetRead req s)) = [\<lparr>status = 200, content = Json (data doc)\<rparr>])"
  by (simp add: action_defs handler_defs)

theorem read_found_or_not_witness:
  "doc_get memory_firestore ''users'' ''abc123'' john_store =
     Inr \<lparr>exists = True, data = JObj john\<rparr> \<and>
   sent (snd (serve memory_firestore GetRead (at_doc ''users'' ''abc123'' JUndefined) john_store)) =
     [\<lparr>status = 200, content = Json (JObj john)\<rparr>] \<and>
   doc_get memory_firestore ''users'' ''abc123'' empty_store =
     Inr \<lparr>exists = False, data = JUndefined\<rparr> \<and>
   sent (snd (serve memory_firestore GetRead (at_doc ''users'' ''abc123'' JUndefined) empty_store)) =
     [\<lparr>status = 404, content = Text ''Document not found''\<rparr>]"
  using
    read_found_or_not [of memory_firestore "at_doc ''users'' ''abc123'' JUndefined" john_store
      "\<lparr>exists = True, data = JObj john\<rparr>"]
    read_found_or_not [of memory_firestore "at_doc ''users'' ''abc123'' JUndefined" empty_store
      "\<lparr>exists = False, data = JUndefined\<rparr>"]
  by (simp add: scenario_defs)

text \<open>
  Claim C3. When \<^verbatim>\<open>add\<close> returns a document reference for the collection and data of the
  request body, Create answers 201 with the body \<^verbatim>\<open>{id: i}\<close>, where \<open>i\<close> is the identifier of
  that reference; nothing is logged and the handler returns normally.
\<close>

theorem create_returns_assigned_id:
  "get_prop (body req) ''collection'' = Some c \<Longrightarrow> get_prop (body req) ''data'' = Some d \<Longrightarrow>
   col_add client c d s = (Inr docRef, s') \<Longrightarrow>
   serve client PostCreate req s =
     (Inr (), \<lparr>db = s', console = [],
               sent = [\<lparr>status = 201, content = Json (JObj [(''id'', JStr (ref_id docRef))])\<rparr>]\<rparr>)"
  by (simp add: action_defs handler_defs)

theorem create_returns_assigned_id_witness:
  "col_add memory_firestore (JStr ''users'') (JObj john) empty_store =
     (Inr \<lparr>ref_id = ''a''\<rparr>, \<lparr>online = True, docs = [((''users'', ''a''), john)]\<rparr>) \<and>
   serve memory_firestore PostCreate create_john empty_store =
     (Inr (), \<lparr>db = \<lparr>online = True, docs = [((''users'', ''a''), john)]\<rparr>, console = [],
               sent = [\<lparr>status = 201, content = Json (JObj [(''id'', JStr ''a'')])\<rparr>]\<rparr>)"
  using create_returns_assigned_id [of create_john "JStr ''users''" "JObj john"
      memory_firestore empty_store "\<lparr>ref_id = ''a''\<rparr>"
      "\<lparr>online = True, docs = [((''users'', ''a''), john)]\<rparr>"]
  by (simp add: scenario_defs)

text \<open>
  Claim C7. The data handed to the client is \<^verbatim>\<open>req.body.data\<close> as it was received: for every
  client, the database after Create is the one left by \<^verbatim>\<open>add\<close> called with exactly the
  \<^verbatim>\<open>collection\<close> and \<^verbatim>\<open>data\<close> properties of the body, and the database after Update is the one
  left by \<^verbatim>\<open>update\<close> called with exactly the \<^verbatim>\<open>data\<close> property of the body. The witness runs
  the client that records its arguments.
\<close>

theorem data_forwarded_unchanged:
  "(get_prop (body req) ''collection'' = Some c \<and> get_prop (body req) ''data'' = Some d \<longrightarrow>
    db (snd (serve client PostCreate req s)) = snd (col_add client c d s)) \<and>
   (get_prop (body req) ''data'' = Some d \<longrightarrow>
    db (snd (serve client PutUpdate req s)) =
      snd (doc_update client (param_collection req) (param_id req) d s))"
  by (simp add: action_defs handler_defs split: prod.splits sum.splits)

theorem data_forwarded_unchanged_witness:
  "db (snd (serve recording_firestore PostCreate create_john [])) =
     [Add (JStr ''users'') (JObj john)] \<and>
   db (snd (serve recording_firestore PutUpdate (at_doc ''users'' ''abc123'' set_age) [])) =
     [Update ''users'' ''abc123'' (JObj [(''age'', JNum 31)])]"
  using
    data_forwarded_unchanged [of create_john "JStr ''users''" "JObj john" recording_firestore "[]"]
    data_forwarded_unchanged [of "at_doc ''users'' ''abc123'' set_age" JUndefined
      "JObj [(''age'', JNum 31)]" recording_firestore "[]"]
  by (simp add: recording_firestore_def scenario_defs)

text \<open>
  Claim C9. Read leaves the database as it found it, whatever it answers.
\<close>

theorem read_leaves_database: "db (snd (serve client GetRead req s)) = s"
  by (cases "doc_get client (param_collection req) (param_id req) s")
    (simp_all add: action_defs handler_defs)

text \<open>
  Claim C10. Delete never asks whether the document exists: whenever the \<^verbatim>\<open>delete\<close> call of
  the client does not throw, and so also for a document that does not exist, it answers
  200 "Document deleted", logs nothing and returns normally. The witness deletes a
  document that \<^verbatim>\<open>get\<close> reports as missing.
\<close>

theorem delete_without_existence_check:
  "fst (doc_delete client (param_collection req) (param_id req) s) = Inr () \<Longrightarrow>
   fst (serve client DeleteDelete req s) = Inr () \<and>
   console (snd (serve client DeleteDelete req s)) = [] \<and>
   sent (snd (serve client DeleteDelete req s)) =
     [\<lparr>status = 200, content = Text ''Document deleted''\<rparr>]"
  by (cases "doc_delete client (param_collection req) (param_id req) s")
    (simp add: action_defs handler_defs)

theorem delete_without_existence_check_witness:
  "doc_get memory_firestore ''users'' ''nobody'' john_store =
     Inr \<lparr>exists = False, data = JUndefined\<rparr> \<and>
   fst (doc_delete memory_firestore ''users'' ''nobody'' john_store) = Inr () \<and>
   serve memory_firestore DeleteDelete (at_doc ''users'' ''nobody'' JUndefined) john_store =
     (Inr (), \<lparr>db = john_store, console = [],
               sent = [\<lparr>status = 200, content = Text ''Document deleted''\<rparr>]\<rparr>)"
  using delete_without_existence_check [of memory_firestore
      "at_doc ''users'' ''nobody'' JUndefined" john_store]
  by (simp add: scenario_defs action_defs handler_defs)

section \<open>The database after a failed request\<close>

lemma create_500_keeps_db:
  assumes "failed_writes_change_nothing client"
    and "map status (sent (snd (serve client PostCreate req s))) = [500]"
  shows "db (snd (serve client PostCreate req s)) = s"
proof (cases "get_prop (body req) ''collection''")
  case None
  then show ?thesis by (simp add: action_defs handler_defs)
next
  case c: (Some c)
  show ?thesis
  proof (cases "get_prop (body req) ''data''")
    case None
    with c show ?thesis by (simp add: action_defs handler_defs)
  next
    case d: (Some d)
    obtain res s' where call: "col_add client c d s = (res, s')"
      by (cases "col_add client c d s")
    show ?thesis
    proof (cases res)
      case (Inl e)
      with call assms(1) have "s' = s"
        unfolding failed_writes_change_nothing_def by blast
      with c d call Inl show ?thesis by (simp add: action_defs handler_defs)
    next
      case (Inr docRef)
      with c d call assms(2) show ?thesis by (simp add: action_defs handler_defs)
    qed
  qed
qed

lemma update_500_keeps_db:
  assumes "failed_writes_change_nothing client"
    and "map status (sent (snd (serve client PutUpdate req s))) = [500]"
  shows "db (snd (serve client PutUpdate req s)) = s"
proof (cases "get_prop (body req) ''data''")
  case None
  then show ?thesis by (simp add: action_defs handler_defs)
next
  case d: (Some d)
  obtain res s' where call: "doc_update client (param_collection req) (param_id req) d s = (res, s')"
    by (cases "doc_update client (param_collection req) (param_id req) d s")
  show ?thesis
  proof (cases res)
    case (Inl e)
    with call assms(1) have "s' = s"
      unfolding failed_writes_change_nothing_def by blast
    with d call Inl show ?thesis by (simp add: action_defs handler_defs)
  next
    case (Inr u)
    with d call assms(2) show ?thesis by (simp add: action_defs handler_defs)
  qed
qed

lemma delete_500_keeps_db:
  assumes "failed_writes_change_nothing client"
    and "map status (sent (snd (serve client DeleteDelete req s))) = [500]"
  shows "db (snd (serve client DeleteDelete req s)) = s"
proof -
  obtain res s' where call: "doc_delete client (param_collection req) (param_id req) s = (res, s')"
    by (cases "doc_delete client (param_collection req) (param_id req) s")
  show ?thesis
  proof (cases res)
    case (Inl e)
    with call assms(1) have "s' = s"
      unfolding failed_writes_change_nothing_def by blast
    with call Inl show ?thesis by (simp add: action_defs handler_defs)
  next
    case (Inr u)
    with call assms(2) show ?thesis by (simp add: action_defs handler_defs)
  qed
qed

lemma read_keeps_db: "db (snd (serve client GetRead req s)) = s"
  by (simp add: action_defs handler_defs split: sum.splits)

text \<open>
  Claim C8, as stated, fails: the handlers have no way to undo what a client call did
  before it threw. With a client that applies an update and then loses the
  acknowledgement, Update answers 500 and the document has changed.
\<close>

theorem unacknowledged_update_counterexample:
  "map status (sent (snd (serve unacked_firestore PutUpdate (at_doc ''users'' ''abc123'' set_age) john_store))) = [500] \<and>
   db (snd (serve unacked_firestore PutUpdate (at_doc ''users'' ''abc123'' set_age) john_store)) \<noteq> john_store"
  by (simp add: action_defs handler_defs unacked_firestore_def memory_firestore_def
      at_doc_def set_age_def john_store_def john_def AList.merge_def)

text \<open>
  Claim C8, amended. Each handler makes one client call and none after it has thrown. So
  for a client whose writing calls change nothing when they throw, a response 500 of any
  operation leaves the database as it was before the request.
\<close>

theorem failure_leaves_database:
  assumes "failed_writes_change_nothing client"
    and "map status (sent (snd (serve client r req s))) = [500]"
  shows "db (snd (serve client r req s)) = s"
  using assms
  by (cases r)
    (simp_all only: create_500_keeps_db read_keeps_db
      update_500_keeps_db delete_500_keeps_db)

theorem failure_leaves_database_witness:
  "failed_writes_change_nothing memory_firestore \<and>
   map status (sent (snd (serve memory_firestore PutUpdate
     (at_doc ''users'' ''abc123'' set_age) offline_store))) = [500] \<and>
   db (snd (serve memory_firestore PutUpdate
     (at_doc ''users'' ''abc123'' set_age) offline_store)) = offline_store"
proof -
  have sent500: "map status (sent (snd (serve memory_firestore PutUpdate
     (at_doc ''users'' ''abc123'' set_age) offline_store))) = [500]"
    by (simp add: scenario_defs action_defs handler_defs)
  from failure_leaves_database [OF memory_failed_writes sent500] memory_failed_writes sent500
  show ?thesis by simp
qed

section \<open>The handlers over the document store\<close>

text \<open>
  The properties of the spec that relate one request to the next depend on what the
  database does between them. They are stated for the handlers run with the client of
  the document store above.
\<close>

lemma fresh_id_not_empty: "fresh_id used \<noteq> []"
  by (simp add: fresh_id_def)

lemma fresh_id_longer: "i \<in> set used \<Longrightarrow> length i < length (fresh_id used)"
  by (induction used) (auto simp: fresh_id_def)

lemma fresh_id_unused: "map_of (docs s) (c, fresh_id (ids_in c s)) = None"
proof (rule ccontr)
  assume "map_of (docs s) (c, fresh_id (ids_in c s)) \<noteq> None"
  then obtain flds where "((c, fresh_id (ids_in c s)), flds) \<in> set (docs s)"
    by (auto dest: map_of_SomeD)
  then have "fresh_id (ids_in c s) \<in> set (ids_in c s)"
    by (force simp: ids_in_def)
  from fresh_id_longer [OF this] show False by simp
qed

lemma create_memory:
  "serve memory_firestore PostCreate req s =
     (case (get_prop (body req) ''collection'', get_prop (body req) ''data'') of
        (Some (JStr c), Some (JObj flds)) \<Rightarrow>
          if c \<noteq> [] \<and> online s
          then (Inr (), \<lparr>db = s\<lparr>docs := AList.update (c, fresh_id (ids_in c s)) flds (docs s)\<rparr>,
                  console = [],
                  sent = [\<lparr>status = 201,
                           content = Json (JObj [(''id'', JStr (fresh_id (ids_in c s)))])\<rparr>]\<rparr>)
          else (Inr (), \<lparr>db = s, console = [DbError (if c = [] then InvalidArgument else Unavailable)],
                  sent = [\<lparr>status = 500, content = Text ''Error creating document''\<rparr>]\<rparr>)
      | (Some c, Some d) \<Rightarrow>
          (Inr (), \<lparr>db = s, console = [DbError InvalidArgument],
                  sent = [\<lparr>status = 500, content = Text ''Error creating document''\<rparr>]\<rparr>)
      | _ \<Rightarrow> (Inr (), \<lparr>db = s, console = [TypeError],
                  sent = [\<lparr>status = 500, content = Text ''Error creating document''\<rparr>]\<rparr>))"
  by (simp add: action_defs handler_defs memory_firestore_sel Let_def
      split: option.splits jsval.splits)

lemma read_memory:
  "serve memory_firestore GetRead (at_doc c i b) s =
     (if \<not> online s
      then (Inr (), \<lparr>db = s, console = [DbError Unavailable],
              sent = [\<lparr>status = 500, content = Text ''Error reading document''\<rparr>]\<rparr>)
      else case map_of (docs s) (c, i) of
             None \<Rightarrow> (Inr (), \<lparr>db = s, console = [],
                        sent = [\<lparr>status = 404, content = Text ''Document not found''\<rparr>]\<rparr>)
           | Some flds \<Rightarrow> (Inr (), \<lparr>db = s, console = [],
                        sent = [\<lparr>status = 200, content = Json (JObj flds)\<rparr>]\<rparr>))"
  by (simp add: action_defs handler_defs memory_firestore_sel mem_get_def at_doc_def
      split: option.splits)

text \<open>
  Claim C4. A Create whose body names the collection \<open>c\<close> and carries the data \<open>d\<close> answers
  201 exactly when the input is valid for the store (a non-empty collection name, an
  object as data, the database reachable). It then answers with a non-empty id \<open>i\<close>, and
  a Read of \<open>(c, i)\<close> on the database it leaves answers 200 with \<open>d\<close> itself.
\<close>

theorem create_then_read:
  assumes "get_prop (body req) ''collection'' = Some (JStr c)"
    and "get_prop (body req) ''data'' = Some d"
  shows "(map status (sent (snd (serve memory_firestore PostCreate req s))) = [201] \<longleftrightarrow>
            c \<noteq> [] \<and> online s \<and> (\<exists>flds. d = JObj flds)) \<and>
         (map status (sent (snd (serve memory_firestore PostCreate req s))) = [201] \<longrightarrow>
            (\<exists>i. i \<noteq> [] \<and>
               sent (snd (serve memory_firestore PostCreate req s)) =
                 [\<lparr>status = 201, content = Json (JObj [(''id'', JStr i)])\<rparr>] \<and>
               sent (snd (serve memory_firestore GetRead (at_doc c i b)
                      (db (snd (serve memory_firestore PostCreate req s))))) =
                 [\<lparr>status = 200, content = Json d\<rparr>]))"
  using assms
  by (cases d)
    (simp_all add: create_memory read_memory fresh_id_not_empty AList.update_conv')

theorem create_then_read_witness:
  "get_prop (body create_john) ''collection'' = Some (JStr ''users'') \<and>
   get_prop (body create_john) ''data'' = Some (JObj john) \<and>
   sent (snd (serve memory_firestore PostCreate create_john empty_store)) =
     [\<lparr>status = 201, content = Json (JObj [(''id'', JStr ''a'')])\<rparr>] \<and>
   sent (snd (serve memory_firestore GetRead (at_doc ''users'' ''a'' JUndefined)
          (db (snd (serve memory_firestore PostCreate create_john empty_store))))) =
     [\<lparr>status = 200, content = Json (JObj john)\<rparr>]"
  using create_then_read [of create_john "''users''" "JObj john" empty_store JUndefined]
  by (simp add: scenario_defs action_defs handler_defs)

text \<open>
  Claim C5. For a document that exists with the fields \<open>old\<close>, an Update with the payload
  fields \<open>new\<close> that answers 200 leaves a database on which a Read of the same document
  answers 200 with the merged fields: a field of the payload has the payload's value,
  every other field has its old value. The witness is the scenario of the spec:
  \<^verbatim>\<open>{age: 31}\<close> over \<^verbatim>\<open>{name: "John", age: 30}\<close> reads back as \<^verbatim>\<open>{name: "John", age: 31}\<close>.
\<close>

theorem update_then_read:
  assumes "map_of (docs s) (c, i) = Some old"
    and "get_prop b ''data'' = Some (JObj new)"
    and "map status (sent (snd (serve memory_firestore PutUpdate (at_doc c i b) s))) = [200]"
  shows "\<exists>merged.
           sent (snd (serve memory_firestore GetRead (at_doc c i b')
                  (db (snd (serve memory_firestore PutUpdate (at_doc c i b) s))))) =
             [\<lparr>status = 200, content = Json (JObj merged)\<rparr>] \<and>
           (\<forall>k. map_of merged k =
                  (case map_of new k of Some v \<Rightarrow> Some v | None \<Rightarrow> map_of old k))"
proof -
  have on: "online s"
    using assms by (cases "online s") (simp_all add: action_defs handler_defs memory_firestore_sel at_doc_def)
  have upd: "db (snd (serve memory_firestore PutUpdate (at_doc c i b) s)) =
      s\<lparr>docs := AList.update (c, i) (AList.merge old new) (docs s)\<rparr>"
    using assms(1,2) on
    by (simp add: action_defs handler_defs memory_firestore_sel at_doc_def)
  have "sent (snd (serve memory_firestore GetRead (at_doc c i b')
                  (db (snd (serve memory_firestore PutUpdate (at_doc c i b) s))))) =
             [\<lparr>status = 200, content = Json (JObj (AList.merge old new))\<rparr>]"
    using on by (simp add: upd read_memory AList.update_conv')
  moreover have "map_of (AList.merge old new) k =
                  (case map_of new k of Some v \<Rightarrow> Some v | None \<Rightarrow> map_of old k)" for k
    by (simp add: AList.merge_conv' map_add_def)
  ultimately show ?thesis by blast
qed

theorem update_then_read_witness:
  "map_of (docs john_store) (''users'', ''abc123'') = Some john \<and>
   get_prop set_age ''data'' = Some (JObj [(''age'', JNum 31)]) \<and>
   sent (snd (serve memory_firestore PutUpdate (at_doc ''users'' ''abc123'' set_age) john_store)) =
     [\<lparr>status = 200, content = Text ''Document updated''\<rparr>] \<and>
   sent (snd (serve memory_firestore GetRead (at_doc ''users'' ''abc123'' JUndefined)
          (db (snd (serve memory_firestore PutUpdate (at_doc ''users'' ''abc123'' set_age)
                     john_store))))) =
     [\<lparr>status = 200, content = Json (JObj [(''name'', JStr ''John''), (''age'', JNum 31)])\<rparr>]"
  using update_then_read [of john_store "''users''" "''abc123''" john set_age
      "[(''age'', JNum 31)]" JUndefined]
  by (simp add: scenario_defs action_defs handler_defs)

text \<open>
  Claim C6. For a document that exists, a Delete that answers 200 leaves a database on
  which a Read of the same document answers 404 "Document not found".
\<close>

theorem delete_then_read:
  assumes "map_of (docs s) (c, i) = Some flds"
    and "map status (sent (snd (serve memory_firestore DeleteDelete (at_doc c i b) s))) = [200]"
  shows "sent (snd (serve memory_firestore GetRead (at_doc c i b')
                (db (snd (serve memory_firestore DeleteDelete (at_doc c i b) s))))) =
           [\<lparr>status = 404, content = Text ''Document not found''\<rparr>]"
proof -
  have on: "online s"
    using assms(2)
    by (cases "online s")
      (simp_all add: action_defs handler_defs memory_firestore_sel mem_delete_def at_doc_def)
  then have "db (snd (serve memory_firestore DeleteDelete (at_doc c i b) s)) =
      s\<lparr>docs := AList.delete (c, i) (docs s)\<rparr>"
    by (simp add: action_defs handler_defs memory_firestore_sel mem_delete_def at_doc_def)
  with on show ?thesis
    by (simp add: read_memory AList.delete_conv')
qed

theorem delete_then_read_witness:
  "map_of (docs john_store) (''users'', ''abc123'') = Some john \<and>
   sent (snd (serve memory_firestore DeleteDelete (at_doc ''users'' ''abc123'' JUndefined)
          john_store)) =
     [\<lparr>status = 200, content = Text ''Document deleted''\<rparr>] \<and>
   sent (snd (serve memory_firestore GetRead (at_doc ''users'' ''abc123'' JUndefined)
          (db (snd (serve memory_firestore DeleteDelete (at_doc ''users'' ''abc123'' JUndefined)
                     john_store))))) =
     [\<lparr>status = 404, content = Text ''Document not found''\<rparr>]"
  using delete_then_read [of john_store "''users''" "''abc123''" john JUndefined JUndefined]
  by (simp add: scenario_defs action_defs handler_defs)

end
